theory Spec2Isabelle
  imports Main "HOL-Library.Word" "HOL-Library.Sublist"
begin

section \<open>The packet dumper of \<open>libav/pkt_dumper.go\<close>\<close>

text \<open>
  The file defines one pipeline node, \<open>PktDumper\<close>: a constructor \<open>NewPktDumper\<close>, the
  per-packet callback that \<open>Start\<close> hands to the node's queue, and the default dump function
  \<open>PktDumpFile\<close>. The model follows the source line by line. What the source takes from
  other packages is written out here as far as the source relies on it:
  \<^item> an \<open>error\<close> is a cause wrapped by \<open>errors.Wrapf\<close>; the formatted message is kept as
    the list of its pieces, so that what a message mentions can be read off;
  \<^item> the template engine (\<open>text/template\<close>) is a parameter: a pair of functions
    \<open>Parse\<close> and \<open>Execute\<close>;
  \<^item> \<open>interface{}\<close> values are the few kinds the node stores, plus strings for the
    caller's own entries;
  \<^item> the two stats are counters: the number of packets added to the incoming rate and the
    number of work-ratio measurements that are open.
\<close>

subsection \<open>Values, errors, packets\<close>

datatype val =
    VUint32 "32 word"
  | VInt64 "64 word"
  | VInt int
  | VString string

text \<open>A piece of a formatted message: literal text (the format string and every \<open>%s\<close>
  argument), or the map printed by \<open>%+v\<close>.\<close>

datatype piece = Lit string | Shown "string \<rightharpoonup> val"

datatype error = Err string | Wrapf error "piece list"

text \<open>\<open>avcodec.Packet\<close>, as far as the source reads it: \<open>Pts()\<close> is an \<open>int64\<close>,
  \<open>StreamIndex()\<close> an \<open>int\<close>, \<open>Data()\<close> points to \<open>Size()\<close> bytes.\<close>

record Packet =
  Pts :: "64 word"
  StreamIndex :: int
  Data :: "8 word list"

definition Size :: "Packet \<Rightarrow> int" where
  "Size pkt = int (length (Data pkt))"

definition GoBytes :: "8 word list \<Rightarrow> int \<Rightarrow> 8 word list" where
  \<comment> \<open>\<open>C.GoBytes(p, n)\<close>: a copy of the \<open>n\<close> bytes at \<open>p\<close>.\<close>
  "GoBytes bs n = take (nat n) bs"

subsection \<open>The template engine\<close>

record 't engine =
  Parse :: "string \<Rightarrow> error + 't"
  Execute :: "'t \<Rightarrow> (string \<rightharpoonup> val) \<Rightarrow> error + string"

subsection \<open>The node\<close>

record NodeMetadata =
  Description :: string
  Label :: string
  Name :: string

record StatMetadata =
  StatDescription :: string
  StatLabel :: string
  StatUnit :: string

text \<open>What \<open>addStats\<close> hands to the node's stater: the two stats of the dumper with their
  metadata, and whatever the queue adds for itself (\<open>d.q.AddStats\<close>).\<close>

datatype stat_ref = StatIncomingRate | StatWorkRatio

datatype stat_entry = AddStat StatMetadata stat_ref | QueueAddStats

type_synonym 'w PktDumpFunc = "Packet \<Rightarrow> string \<Rightarrow> 'w \<Rightarrow> error option \<times> 'w"

text \<open>
  The struct \<open>PktDumper\<close>. Field \<open>t\<close> is \<open>tmpl\<close> here (a nil pointer is \<open>None\<close>), the
  embedded \<open>BaseNode\<close> is its metadata and its stater, and \<open>data\<close> is \<open>None\<close> for a nil
  map. The fields \<open>e\<close> and \<open>q\<close> are part of the surroundings below. The dump function
  \<open>fn\<close> and the callback \<open>e\<close> are functions, and a packet is a packet: calling a nil
  function and reading a nil packet are left out.
\<close>

record ('t, 'w) PktDumper =
  BaseNode :: NodeMetadata
  Stater :: "stat_entry list"
  count :: "32 word"
  data :: "(string \<rightharpoonup> val) option"
  fn :: "'w PktDumpFunc"
  pattern :: string
  statIncomingRate :: nat
  statWorkRatio :: nat
  tmpl :: "'t option"

text \<open>The effects of the callback, in the order they happen.\<close>

datatype effect =
    IncomingRateAdd nat
  | CountAdd "32 word"
  | DataStore string val
  | WorkRatioAdd
  | WorkRatioDone
  | TemplateExecute "string \<rightharpoonup> val" "error + string"
  | DumpCall Packet string "error option"
  | EmitEvent error
  | PauseHandled
  | Panic string

text \<open>
  The node together with what it acts on: \<open>world\<close> is whatever the dump function changes
  (the file system for \<open>PktDumpFile\<close>), \<open>emitted\<close> the events passed to \<open>d.e\<close>, and
  \<open>trace\<close> the effects so far.
\<close>

record ('t, 'w) sys =
  dumper :: "('t, 'w) PktDumper"
  world :: 'w
  emitted :: "error list"
  trace :: "effect list"

datatype outcome = Returned | Panicked string

subsection \<open>The steps of the callback\<close>

definition logged :: "effect \<Rightarrow> ('t, 'w) sys \<Rightarrow> ('t, 'w) sys" where
  "logged x s = s\<lparr>trace := trace s @ [x]\<rparr>"

definition statIncomingRate_Add :: "nat \<Rightarrow> ('t, 'w) sys \<Rightarrow> ('t, 'w) sys" where
  "statIncomingRate_Add n s =
     logged (IncomingRateAdd n)
       (s\<lparr>dumper := (dumper s)\<lparr>statIncomingRate := statIncomingRate (dumper s) + n\<rparr>\<rparr>)"

definition count_AddUint32 :: "32 word \<Rightarrow> ('t, 'w) sys \<Rightarrow> 32 word \<times> ('t, 'w) sys" where
  \<comment> \<open>\<open>atomic.AddUint32(&d.count, delta)\<close> returns the new value; the sum wraps.\<close>
  "count_AddUint32 delta s =
     (let c = count (dumper s) + delta
      in (c, logged (CountAdd c) (s\<lparr>dumper := (dumper s)\<lparr>count := c\<rparr>\<rparr>)))"

definition data_store :: "string \<Rightarrow> val \<Rightarrow> ('t, 'w) sys \<Rightarrow> ('t, 'w) sys option" where
  \<comment> \<open>\<open>d.data[k] = v\<close>: an assignment to an entry of a nil map panics.\<close>
  "data_store k v s =
     (case data (dumper s) of
        None \<Rightarrow> None
      | Some m \<Rightarrow> Some (logged (DataStore k v) (s\<lparr>dumper := (dumper s)\<lparr>data := Some (m(k \<mapsto> v))\<rparr>\<rparr>)))"

definition data_read :: "(string \<rightharpoonup> val) option \<Rightarrow> (string \<rightharpoonup> val)" where
  \<comment> \<open>Reading a nil map finds no key.\<close>
  "data_read dm = (case dm of None \<Rightarrow> Map.empty | Some m \<Rightarrow> m)"

definition statWorkRatio_Add :: "('t, 'w) sys \<Rightarrow> ('t, 'w) sys" where
  "statWorkRatio_Add s =
     logged WorkRatioAdd (s\<lparr>dumper := (dumper s)\<lparr>statWorkRatio := statWorkRatio (dumper s) + 1\<rparr>\<rparr>)"

definition statWorkRatio_Done :: "('t, 'w) sys \<Rightarrow> ('t, 'w) sys" where
  "statWorkRatio_Done s =
     logged WorkRatioDone (s\<lparr>dumper := (dumper s)\<lparr>statWorkRatio := statWorkRatio (dumper s) - 1\<rparr>\<rparr>)"

definition emit :: "error \<Rightarrow> ('t, 'w) sys \<Rightarrow> ('t, 'w) sys" where
  \<comment> \<open>\<open>d.e(astiencoder.EventError(err))\<close>\<close>
  "emit err s = logged (EmitEvent err) (s\<lparr>emitted := emitted s @ [err]\<rparr>)"

definition HandlePause :: "('t, 'w) sys \<Rightarrow> ('t, 'w) sys" where
  \<comment> \<open>The deferred \<open>d.HandlePause()\<close>: it runs when the callback returns or panics.\<close>
  "HandlePause s = logged PauseHandled s"

definition panic :: "string \<Rightarrow> ('t, 'w) sys \<Rightarrow> outcome \<times> ('t, 'w) sys" where
  "panic msg s = (Panicked msg, logged (Panic msg) (HandlePause s))"

definition t_Execute ::
  "'t engine \<Rightarrow> ('t, 'w) sys \<Rightarrow> ((error + string) \<times> ('t, 'w) sys) option" where
  \<comment> \<open>\<open>d.t.Execute(buf, d.data)\<close>: a nil \<open>d.t\<close> is dereferenced, which panics.\<close>
  "t_Execute eng s =
     (case tmpl (dumper s) of
        None \<Rightarrow> None
      | Some tp \<Rightarrow>
          (let m = data_read (data (dumper s)); r = Execute eng tp m
           in Some (r, logged (TemplateExecute m r) s)))"

definition fn_call :: "Packet \<Rightarrow> string \<Rightarrow> ('t, 'w) sys \<Rightarrow> error option \<times> ('t, 'w) sys" where
  \<comment> \<open>\<open>d.fn(pkt, buf.String())\<close>\<close>
  "fn_call pkt name s =
     (case fn (dumper s) pkt name (world s) of
        (r, w) \<Rightarrow> (r, logged (DumpCall pkt name r) (s\<lparr>world := w\<rparr>)))"

definition execute_failed :: "string \<Rightarrow> (string \<rightharpoonup> val) \<Rightarrow> error \<Rightarrow> error" where
  \<comment> \<open>\<open>errors.Wrapf(err, "astilibav: executing template %s with data %+v failed", d.pattern, d.data)\<close>\<close>
  "execute_failed pat m err =
     Wrapf err [Lit ''astilibav: executing template '', Lit pat, Lit '' with data '',
                Shown m, Lit '' failed'']"

definition dump_failed :: "string \<Rightarrow> error \<Rightarrow> error" where
  \<comment> \<open>\<open>errors.Wrapf(err, "astilibav: pkt dump func with pattern %s failed", buf)\<close>: the
      argument is the buffer, that is the rendered name.\<close>
  "dump_failed buf err =
     Wrapf err [Lit ''astilibav: pkt dump func with pattern '', Lit buf, Lit '' failed'']"

text \<open>The callback of \<open>Start\<close> (lines 97 to 133), for one packet taken from the queue.\<close>

definition handle ::
  "'t engine \<Rightarrow> Packet \<Rightarrow> ('t, 'w) sys \<Rightarrow> outcome \<times> ('t, 'w) sys" where
  "handle eng pkt s0 =
     (let s1 = statIncomingRate_Add 1 s0;
          (c, s2) = count_AddUint32 1 s1
      in case data_store ''count'' (VUint32 c) s2 of
           None \<Rightarrow> panic ''assignment to entry in nil map'' s2
         | Some s3 \<Rightarrow>
       (case data_store ''pts'' (VInt64 (Pts pkt)) s3 of
           None \<Rightarrow> panic ''assignment to entry in nil map'' s3
         | Some s4 \<Rightarrow>
       (case data_store ''stream_idx'' (VInt (StreamIndex pkt)) s4 of
           None \<Rightarrow> panic ''assignment to entry in nil map'' s4
         | Some s5 \<Rightarrow>
       (case t_Execute eng (statWorkRatio_Add s5) of
           None \<Rightarrow> panic ''nil pointer dereference'' (statWorkRatio_Add s5)
         | Some (Inl err, s6) \<Rightarrow>
             (Returned,
              HandlePause
                (emit (execute_failed (pattern (dumper s6)) (data_read (data (dumper s6))) err)
                   (statWorkRatio_Done s6)))
         | Some (Inr buf, s6) \<Rightarrow>
             (case fn_call pkt buf (statWorkRatio_Add (statWorkRatio_Done s6)) of
                (Some err, s7) \<Rightarrow>
                  (Returned, HandlePause (emit (dump_failed buf err) (statWorkRatio_Done s7)))
              | (None, s7) \<Rightarrow>
                  (Returned, HandlePause (statWorkRatio_Done s7)))))))"

text \<open>The queue hands its packets to the callback one after the other, in the order they
  were sent; a panic ends the loop.\<close>

fun run :: "'t engine \<Rightarrow> Packet list \<Rightarrow> ('t, 'w) sys \<Rightarrow> outcome \<times> ('t, 'w) sys" where
  "run eng [] s = (Returned, s)"
| "run eng (pkt # pkts) s =
     (case handle eng pkt s of
        (Panicked msg, s') \<Rightarrow> (Panicked msg, s')
      | (Returned, s') \<Rightarrow> run eng pkts s')"

definition start :: "('t, 'w) PktDumper \<Rightarrow> 'w \<Rightarrow> ('t, 'w) sys" where
  \<comment> \<open>A node that has handled nothing yet, in front of the given world.\<close>
  "start d w = \<lparr>dumper = d, world = w, emitted = [], trace = []\<rparr>"

subsection \<open>The constructor\<close>

definition digit :: "nat \<Rightarrow> char" where
  "digit n = ''0123456789'' ! n"

fun decimal :: "nat \<Rightarrow> string" where
  \<comment> \<open>\<open>%d\<close> of an unsigned number\<close>
  "decimal n = (if n < 10 then [digit n] else decimal (n div 10) @ [digit (n mod 10)])"

declare decimal.simps [simp del]

definition addStats :: "('t, 'w) PktDumper \<Rightarrow> ('t, 'w) PktDumper" where
  "addStats d =
     d\<lparr>Stater := Stater d @
       [AddStat \<lparr>StatDescription = ''Number of packets coming in the pkt dumper per second'',
                 StatLabel = ''Incoming rate'', StatUnit = ''pps''\<rparr> StatIncomingRate,
        AddStat \<lparr>StatDescription = ''Percentage of time spent doing some actual work'',
                 StatLabel = ''Work ratio'', StatUnit = ''%''\<rparr> StatWorkRatio,
        QueueAddStats]\<rparr>"

definition parse_failed :: "string \<Rightarrow> error \<Rightarrow> error" where
  \<comment> \<open>\<open>errors.Wrapf(err, "astilibav: parsing pattern %s as template failed", pattern)\<close>\<close>
  "parse_failed pat err =
     Wrapf err [Lit ''astilibav: parsing pattern '', Lit pat, Lit '' as template failed'']"

text \<open>
  \<open>NewPktDumper\<close>. The package variable \<open>countPktDumper\<close> is passed in and returned. The
  results \<open>d\<close> and \<open>err\<close> are named results: \<open>d\<close> is assigned before the pattern is parsed
  and is returned on both paths. The events given to the callback \<open>e\<close> are the list
  \<open>emitted\<close> of the surroundings.
\<close>

definition NewPktDumper ::
  "'t engine \<Rightarrow> string \<Rightarrow> 'w PktDumpFunc \<Rightarrow> (string \<rightharpoonup> val) option \<Rightarrow> 64 word \<Rightarrow>
     64 word \<times> ('t, 'w) PktDumper option \<times> error option" where
  "NewPktDumper eng pat f dat countPktDumper =
     (let cnt = countPktDumper + 1;
          d = addStats
                \<lparr>BaseNode = \<lparr>Description = ''Dump packets'',
                              Label = ''Pkt dumper #'' @ decimal (unat cnt),
                              Name = ''pkt_dumper_'' @ decimal (unat cnt)\<rparr>,
                 Stater = [], count = 0, data = dat, fn = f, pattern = pat,
                 statIncomingRate = 0, statWorkRatio = 0, tmpl = None\<rparr>
      in case Parse eng pat of
           Inl err \<Rightarrow> (cnt, Some d, Some (parse_failed pat err))
         | Inr tp \<Rightarrow> (cnt, Some (d\<lparr>tmpl := Some tp\<rparr>), None))"

subsection \<open>The default dump function\<close>

text \<open>
  The file system as \<open>PktDumpFile\<close> sees it: the contents of the files, the files that are
  open, every \<open>Write\<close> so far, and which calls fail (\<open>create_fails\<close> gives the error of
  \<open>os.Create\<close> for a path, \<open>write_fails\<close> the number of bytes written before \<open>Write\<close>
  fails and its error).
\<close>

record fs =
  files :: "string \<rightharpoonup> 8 word list"
  open_files :: "string list"
  writes :: "(string \<times> 8 word list) list"
  create_fails :: "string \<Rightarrow> error option"
  write_fails :: "string \<Rightarrow> (nat \<times> error) option"

definition os_Create :: "string \<Rightarrow> fs \<Rightarrow> (error + string) \<times> fs" where
  \<comment> \<open>\<open>os.Create\<close> creates the file or truncates it, and opens it.\<close>
  "os_Create path x =
     (case create_fails x path of
        Some err \<Rightarrow> (Inl err, x)
      | None \<Rightarrow> (Inr path, x\<lparr>files := (files x)(path \<mapsto> []), open_files := path # open_files x\<rparr>))"

definition content :: "fs \<Rightarrow> string \<Rightarrow> 8 word list" where
  "content x f = (case files x f of None \<Rightarrow> [] | Some bs \<Rightarrow> bs)"

definition File_Write :: "string \<Rightarrow> 8 word list \<Rightarrow> fs \<Rightarrow> error option \<times> fs" where
  \<comment> \<open>\<open>f.Write(b)\<close> appends \<open>b\<close>, or a part of it when it fails.\<close>
  "File_Write f b x =
     (case write_fails x f of
        Some (n, err) \<Rightarrow>
          (Some err, x\<lparr>files := (files x)(f \<mapsto> content x f @ take n b), writes := writes x @ [(f, b)]\<rparr>)
      | None \<Rightarrow>
          (None, x\<lparr>files := (files x)(f \<mapsto> content x f @ b), writes := writes x @ [(f, b)]\<rparr>))"

definition File_Close :: "string \<Rightarrow> fs \<Rightarrow> fs" where
  "File_Close f x = x\<lparr>open_files := remove1 f (open_files x)\<rparr>"

definition create_failed :: "string \<Rightarrow> error \<Rightarrow> error" where
  "create_failed path err = Wrapf err [Lit ''astilibav: creating file '', Lit path, Lit '' failed'']"

definition write_failed :: "string \<Rightarrow> error \<Rightarrow> error" where
  "write_failed path err = Wrapf err [Lit ''astilibav: writing to file '', Lit path, Lit '' failed'']"

definition PktDumpFile :: "fs PktDumpFunc" where
  "PktDumpFile pkt path x =
     (case os_Create path x of
        (Inl err, x1) \<Rightarrow> (Some (create_failed path err), x1)
      | (Inr f, x1) \<Rightarrow>
          (case File_Write f (GoBytes (Data pkt) (Size pkt)) x1 of
             (Some err, x2) \<Rightarrow> (Some (write_failed path err), File_Close f x2)
           | (None, x2) \<Rightarrow> (None, File_Close f x2)))"

subsection \<open>The engine the source uses\<close>

text \<open>
  The source parses with \<open>template.New("").Parse(pattern)\<close> and sets no option, so the
  engine is Go's \<open>text/template\<close> with \<open>missingkey=default\<close>. It is modelled here for the
  templates that consist of literal text and of field actions \<open>{{.a}}\<close> and \<open>{{.a.b}}\<close>,
  executed on a \<open>map[string]interface{}\<close> whose values are the scalars of \<open>val\<close>:
  \<^item> an action that is opened by \<open>{{\<close> and never closed is a parse error;
  \<^item> \<open>{{.a}}\<close> prints the entry of the map under \<open>a\<close>;
  \<^item> a field of a key that the map does not have, \<open>{{.a}}\<close> or \<open>{{.a.b}}\<close>, is no error: the
    missing entry is an invalid value, every field of it is invalid again, and an invalid
    value prints as \<open><no value>\<close> (the documented behaviour of \<open>missingkey=default\<close>);
  \<^item> \<open>{{.a.b}}\<close> for a key \<open>a\<close> that the map has is an execution error: the entry is a
    scalar in an \<open>interface{}\<close> and has no field \<open>b\<close>.
  An error of the engine is kept as its message, without the prefix that names the
  template and the position.

  Every other action (pipelines, functions, variables, comments, trim markers, an action
  over several lines) is outside this fragment. What the engine does with a pattern that
  has such an action is not modelled: it is a parameter, a second engine \<open>other\<close> that is
  asked for these patterns and of which nothing is assumed.
\<close>

datatype go_node = TextNode string | FieldNode string "string list"

datatype 'x go_tmpl = Fragment "go_node list" | Other 'x

datatype 'a parsed = Failed error | Parsed 'a | Unmodelled

definition is_space :: "char \<Rightarrow> bool" where
  "is_space c \<longleftrightarrow> c \<in> set [CHR '' '', CHR 0x09]"

definition is_letter :: "char \<Rightarrow> bool" where
  "is_letter c \<longleftrightarrow> c \<in> set ''abcdefghijklmnopqrstuvwxyzABCDEFGHIJKLMNOPQRSTUVWXYZ_''"

definition is_digit :: "char \<Rightarrow> bool" where
  "is_digit c \<longleftrightarrow> c \<in> set ''0123456789''"

fun is_ident :: "string \<Rightarrow> bool" where
  "is_ident [] = False"
| "is_ident (c # cs) = (is_letter c \<and> list_all (\<lambda>x. is_letter x \<or> is_digit x) cs)"

definition trim :: "string \<Rightarrow> string" where
  "trim s = rev (dropWhile is_space (rev (dropWhile is_space s)))"

fun split_dots :: "string \<Rightarrow> string \<Rightarrow> string list" where
  "split_dots acc [] = [acc]"
| "split_dots acc (c # cs) =
     (if c = CHR ''.'' then acc # split_dots [] cs else split_dots (acc @ [c]) cs)"

definition action_node :: "string \<Rightarrow> go_node option" where
  "action_node body =
     (case trim body of
        [] \<Rightarrow> None
      | c # cs \<Rightarrow>
          (if c = CHR ''.'' then
             (case split_dots [] cs of
                [] \<Rightarrow> None
              | k # ks \<Rightarrow> if list_all is_ident (k # ks) then Some (FieldNode k ks) else None)
           else None))"

definition text_node :: "string \<Rightarrow> go_node list" where
  "text_node s = (if s = [] then [] else [TextNode s])"

fun lex_text :: "string \<Rightarrow> string \<Rightarrow> go_node list parsed"
  and lex_action :: "string \<Rightarrow> string \<Rightarrow> go_node list parsed" where
  "lex_text acc [] = Parsed (text_node acc)"
| "lex_text acc [c] = Parsed (text_node (acc @ [c]))"
| "lex_text acc (c # d # rest) =
     (if c = CHR ''{'' \<and> d = CHR ''{'' then
        (case lex_action [] rest of
           Parsed ns \<Rightarrow> Parsed (text_node acc @ ns)
         | r \<Rightarrow> r)
      else lex_text (acc @ [c]) (d # rest))"
| "lex_action body [] = Failed (Err ''unclosed action'')"
| "lex_action body [c] = Failed (Err ''unclosed action'')"
| "lex_action body (c # d # rest) =
     (if c = CHR ''}'' \<and> d = CHR ''}'' then
        (case action_node body of
           None \<Rightarrow> Unmodelled
         | Some n \<Rightarrow>
             (case lex_text [] rest of
                Parsed ns \<Rightarrow> Parsed (n # ns)
              | r \<Rightarrow> r))
      else lex_action (body @ [c]) (d # rest))"

definition go_Parse :: "'x engine \<Rightarrow> string \<Rightarrow> error + 'x go_tmpl" where
  "go_Parse other s =
     (case lex_text [] s of
        Failed err \<Rightarrow> Inl err
      | Parsed ns \<Rightarrow> Inr (Fragment ns)
      | Unmodelled \<Rightarrow> (case Parse other s of Inl err \<Rightarrow> Inl err | Inr x \<Rightarrow> Inr (Other x)))"

definition decimal_int :: "int \<Rightarrow> string" where
  "decimal_int i = (if i < 0 then CHR ''-'' # decimal (nat (- i)) else decimal (nat i))"

fun print_val :: "val \<Rightarrow> string" where
  "print_val (VUint32 w) = decimal (unat w)"
| "print_val (VInt64 w) = decimal_int (sint w)"
| "print_val (VInt i) = decimal_int i"
| "print_val (VString s) = s"

fun exec_node :: "(string \<rightharpoonup> val) \<Rightarrow> go_node \<Rightarrow> error + string" where
  "exec_node m (TextNode s) = Inr s"
| "exec_node m (FieldNode k ks) =
     (case m k of
        None \<Rightarrow> Inr ''<no value>''
      | Some v \<Rightarrow>
          (case ks of
             [] \<Rightarrow> Inr (print_val v)
           | k2 # ks' \<Rightarrow> Inl (Err (''can't evaluate field '' @ k2 @ '' in type interface {}''))))"

fun exec_nodes :: "go_node list \<Rightarrow> (string \<rightharpoonup> val) \<Rightarrow> error + string" where
  "exec_nodes [] m = Inr []"
| "exec_nodes (n # ns) m =
     (case exec_node m n of
        Inl err \<Rightarrow> Inl err
      | Inr s \<Rightarrow> (case exec_nodes ns m of Inl err \<Rightarrow> Inl err | Inr r \<Rightarrow> Inr (s @ r)))"

fun go_Execute :: "'x engine \<Rightarrow> 'x go_tmpl \<Rightarrow> (string \<rightharpoonup> val) \<Rightarrow> error + string" where
  "go_Execute other (Fragment ns) m = exec_nodes ns m"
| "go_Execute other (Other x) m = Execute other x m"

definition go_template :: "'x engine \<Rightarrow> 'x go_tmpl engine" where
  "go_template other = \<lparr>Parse = go_Parse other, Execute = go_Execute other\<rparr>"

text \<open>
  The examples below use patterns of the fragment only. For them the second engine is
  never asked, and any engine can stand in its place; the examples take one that knows
  no action at all.
\<close>

definition fields_only :: "unit engine" where
  "fields_only = \<lparr>Parse = (\<lambda>s. Inl (Err ''unknown action'')), Execute = (\<lambda>x m. Inr [])\<rparr>"

abbreviation go_fields :: "unit go_tmpl engine" where
  "go_fields \<equiv> go_template fields_only"



subsection \<open>The queue and the pause\<close>








fun dumps :: "effect list \<Rightarrow> (Packet \<times> string) list" where
  "dumps [] = []"
| "dumps (DumpCall pkt name r # es) = (pkt, name) # dumps es"
| "dumps (x # es) = dumps es"

fun rendered :: "effect list \<Rightarrow> (string \<rightharpoonup> val) list" where
  "rendered [] = []"
| "rendered (TemplateExecute m r # es) = m # rendered es"
| "rendered (x # es) = rendered es"

subsection \<open>Derived notions and example inputs\<close>

text \<open>The map after the three assignments of lines 111 to 113, for the counter value \<open>c\<close>.\<close>

definition published :: "(string \<rightharpoonup> val) \<Rightarrow> 32 word \<Rightarrow> Packet \<Rightarrow> (string \<rightharpoonup> val)" where
  "published m c pkt =
     m(''count'' \<mapsto> VUint32 c, ''pts'' \<mapsto> VInt64 (Pts pkt), ''stream_idx'' \<mapsto> VInt (StreamIndex pkt))"

text \<open>The effects of the callback up to the end of the first measurement.\<close>

definition prelude :: "(string \<rightharpoonup> val) \<Rightarrow> 32 word \<Rightarrow> Packet \<Rightarrow> (error + string) \<Rightarrow> effect list" where
  "prelude m c pkt r =
     [IncomingRateAdd 1, CountAdd c, DataStore ''count'' (VUint32 c),
      DataStore ''pts'' (VInt64 (Pts pkt)), DataStore ''stream_idx'' (VInt (StreamIndex pkt)),
      WorkRatioAdd, TemplateExecute (published m c pkt) r, WorkRatioDone]"

text \<open>
  What a caller does with the constructor: it builds the node (here as the first one of
  the process), gives up when the constructor reports an error, and otherwise puts the
  node in front of a world.
\<close>

definition boot ::
  "'t engine \<Rightarrow> string \<Rightarrow> 'w PktDumpFunc \<Rightarrow> (string \<rightharpoonup> val) option \<Rightarrow> 'w \<Rightarrow> ('t, 'w) sys option" where
  "boot eng pat f dat w =
     (case NewPktDumper eng pat f dat 0 of
        (g, Some d, None) \<Rightarrow> Some (start d w)
      | (g, d, err) \<Rightarrow> None)"

definition disk :: fs where
  "disk = \<lparr>files = Map.empty, open_files = [], writes = [],
           create_fails = (\<lambda>p. None), write_fails = (\<lambda>p. None)\<rparr>"

definition packet :: "int \<Rightarrow> 8 word list \<Rightarrow> Packet" where
  "packet i bs = \<lparr>Pts = 0, StreamIndex = i, Data = bs\<rparr>"

text \<open>A disk on which no file can be created.\<close>

definition failing_disk :: fs where
  "failing_disk = disk\<lparr>create_fails := (\<lambda>p. Some (Err ''permission denied''))\<rparr>"



text \<open>A disk that holds a file already, and the same disk when it is full: one byte of
  a write gets through.\<close>

definition full_disk :: fs where
  "full_disk = disk\<lparr>files := [''a.raw'' \<mapsto> [9, 9, 9]],
                     write_fails := (\<lambda>p. Some (1, Err ''no space left on device''))\<rparr>"

definition used_disk :: fs where
  "used_disk = disk\<lparr>files := [''a.raw'' \<mapsto> [9, 9, 9]]\<rparr>"



section \<open>Properties of the callback\<close>

lemmas step_defs = statIncomingRate_Add_def count_AddUint32_def data_store_def data_read_def
  statWorkRatio_Add_def statWorkRatio_Done_def emit_def HandlePause_def panic_def t_Execute_def
  fn_call_def logged_def

lemma handle_nil_data:
  assumes "data (dumper s) = None"
  shows "handle eng pkt s =
    (Panicked ''assignment to entry in nil map'',
     s\<lparr>dumper := (dumper s)\<lparr>statIncomingRate := statIncomingRate (dumper s) + 1,
                            count := count (dumper s) + 1\<rparr>,
       trace := trace s @ [IncomingRateAdd 1, CountAdd (count (dumper s) + 1), PauseHandled,
                           Panic ''assignment to entry in nil map'']\<rparr>)"
  using assms by (simp add: handle_def step_defs Let_def)

lemma handle_nil_tmpl:
  assumes "data (dumper s) = Some m" "tmpl (dumper s) = None"
  shows "handle eng pkt s =
    (Panicked ''nil pointer dereference'',
     s\<lparr>dumper := (dumper s)\<lparr>statIncomingRate := statIncomingRate (dumper s) + 1,
                            count := count (dumper s) + 1,
                            data := Some (published m (count (dumper s) + 1) pkt),
                            statWorkRatio := statWorkRatio (dumper s) + 1\<rparr>,
       trace := trace s @ [IncomingRateAdd 1, CountAdd (count (dumper s) + 1),
          DataStore ''count'' (VUint32 (count (dumper s) + 1)),
          DataStore ''pts'' (VInt64 (Pts pkt)), DataStore ''stream_idx'' (VInt (StreamIndex pkt)),
          WorkRatioAdd, PauseHandled, Panic ''nil pointer dereference'']\<rparr>)"
  using assms by (simp add: handle_def step_defs Let_def published_def)

lemma handle_execute_fails:
  assumes "data (dumper s) = Some m" "tmpl (dumper s) = Some tp"
    and "Execute eng tp (published m (count (dumper s) + 1) pkt) = Inl err"
  shows "handle eng pkt s =
    (Returned,
     s\<lparr>dumper := (dumper s)\<lparr>statIncomingRate := statIncomingRate (dumper s) + 1,
                            count := count (dumper s) + 1,
                            data := Some (published m (count (dumper s) + 1) pkt)\<rparr>,
       emitted := emitted s @
         [execute_failed (pattern (dumper s)) (published m (count (dumper s) + 1) pkt) err],
       trace := trace s @ prelude m (count (dumper s) + 1) pkt (Inl err) @
         [EmitEvent (execute_failed (pattern (dumper s)) (published m (count (dumper s) + 1) pkt) err),
          PauseHandled]\<rparr>)"
  using assms by (simp add: handle_def step_defs Let_def published_def prelude_def)

lemma handle_fn_fails:
  assumes "data (dumper s) = Some m" "tmpl (dumper s) = Some tp"
    and "Execute eng tp (published m (count (dumper s) + 1) pkt) = Inr buf"
    and "fn (dumper s) pkt buf (world s) = (Some err, w)"
  shows "handle eng pkt s =
    (Returned,
     s\<lparr>dumper := (dumper s)\<lparr>statIncomingRate := statIncomingRate (dumper s) + 1,
                            count := count (dumper s) + 1,
                            data := Some (published m (count (dumper s) + 1) pkt)\<rparr>,
       world := w,
       emitted := emitted s @ [dump_failed buf err],
       trace := trace s @ prelude m (count (dumper s) + 1) pkt (Inr buf) @
         [WorkRatioAdd, DumpCall pkt buf (Some err), WorkRatioDone,
          EmitEvent (dump_failed buf err), PauseHandled]\<rparr>)"
  using assms by (simp add: handle_def step_defs Let_def published_def prelude_def)

lemma handle_ok:
  assumes "data (dumper s) = Some m" "tmpl (dumper s) = Some tp"
    and "Execute eng tp (published m (count (dumper s) + 1) pkt) = Inr buf"
    and "fn (dumper s) pkt buf (world s) = (None, w)"
  shows "handle eng pkt s =
    (Returned,
     s\<lparr>dumper := (dumper s)\<lparr>statIncomingRate := statIncomingRate (dumper s) + 1,
                            count := count (dumper s) + 1,
                            data := Some (published m (count (dumper s) + 1) pkt)\<rparr>,
       world := w,
       trace := trace s @ prelude m (count (dumper s) + 1) pkt (Inr buf) @
         [WorkRatioAdd, DumpCall pkt buf None, WorkRatioDone, PauseHandled]\<rparr>)"
  using assms by (simp add: handle_def step_defs Let_def published_def prelude_def)

lemma dumps_append: "dumps (xs @ ys) = dumps xs @ dumps ys"
  by (induction xs rule: dumps.induct) simp_all

lemma rendered_append: "rendered (xs @ ys) = rendered xs @ rendered ys"
  by (induction xs rule: rendered.induct) simp_all

lemma dumps_prelude: "dumps (prelude m c pkt r) = []"
  by (simp add: prelude_def)

lemma handle_keeps:
  "tmpl (dumper (snd (handle eng pkt s))) = tmpl (dumper s) \<and>
   fn (dumper (snd (handle eng pkt s))) = fn (dumper s) \<and>
   pattern (dumper (snd (handle eng pkt s))) = pattern (dumper s) \<and>
   count (dumper (snd (handle eng pkt s))) = count (dumper s) + 1 \<and>
   statIncomingRate (dumper (snd (handle eng pkt s))) = statIncomingRate (dumper s) + 1"
  by (auto simp add: handle_def step_defs Let_def split: option.splits sum.splits prod.splits)

lemma handle_data:
  "data (dumper (snd (handle eng pkt s))) =
     (case data (dumper s) of None \<Rightarrow> None
      | Some m \<Rightarrow> Some (published m (count (dumper s) + 1) pkt))"
  by (auto simp add: handle_def step_defs Let_def published_def
      split: option.splits sum.splits prod.splits)

lemma handle_returns:
  "data (dumper s) \<noteq> None \<Longrightarrow> tmpl (dumper s) \<noteq> None \<Longrightarrow> fst (handle eng pkt s) = Returned"
  by (auto simp add: handle_def step_defs Let_def split: option.splits sum.splits prod.splits)

lemma handle_rendered:
  "data (dumper s) = Some m \<Longrightarrow> tmpl (dumper s) = Some tp \<Longrightarrow>
   rendered (trace (snd (handle eng pkt s))) =
     rendered (trace s) @ [published m (count (dumper s) + 1) pkt]"
  by (auto simp add: handle_def step_defs Let_def published_def rendered_append
      split: option.splits sum.splits prod.splits)

lemma published_other:
  "k \<notin> {''count'', ''pts'', ''stream_idx''} \<Longrightarrow> published m c pkt k = m k"
  by (simp add: published_def)

lemma run_snoc_free:
  "data (dumper s) = Some m \<Longrightarrow> tmpl (dumper s) = Some tp \<Longrightarrow>
   \<exists>s' m'. run eng pkts s = (Returned, s') \<and>
     data (dumper s') = Some m' \<and> tmpl (dumper s') = Some tp \<and>
     count (dumper s') = count (dumper s) + of_nat (length pkts) \<and>
     statIncomingRate (dumper s') = statIncomingRate (dumper s) + length pkts \<and>
     map (\<lambda>x. x ''count'') (rendered (trace s')) =
       map (\<lambda>x. x ''count'') (rendered (trace s)) @
       map (\<lambda>i. Some (VUint32 (count (dumper s) + of_nat i))) [1..<length pkts + 1]"
proof (induction pkts arbitrary: s m)
  case Nil
  then show ?case by simp
next
  case (Cons pkt pkts)
  obtain res s1 where h: "handle eng pkt s = (res, s1)" by (cases "handle eng pkt s")
  have r: "res = Returned" using handle_returns[of s eng pkt] Cons.prems h by simp
  have d1: "data (dumper s1) = Some (published m (count (dumper s) + 1) pkt)"
    using handle_data[of eng pkt s] Cons.prems h by simp
  have k: "tmpl (dumper s1) = Some tp" "count (dumper s1) = count (dumper s) + 1"
    "statIncomingRate (dumper s1) = statIncomingRate (dumper s) + 1"
    using handle_keeps[of eng pkt s] Cons.prems h by simp_all
  have rd: "rendered (trace s1) = rendered (trace s) @ [published m (count (dumper s) + 1) pkt]"
    using handle_rendered[of s m tp eng pkt] Cons.prems h by simp
  from Cons.IH[OF d1 k(1)] obtain s' m' where
    ih: "run eng pkts s1 = (Returned, s')" "data (dumper s') = Some m'" "tmpl (dumper s') = Some tp"
      "count (dumper s') = count (dumper s1) + of_nat (length pkts)"
      "statIncomingRate (dumper s') = statIncomingRate (dumper s1) + length pkts"
      "map (\<lambda>x. x ''count'') (rendered (trace s')) =
       map (\<lambda>x. x ''count'') (rendered (trace s1)) @
       map (\<lambda>i. Some (VUint32 (count (dumper s1) + of_nat i))) [1..<length pkts + 1]"
    by blast
  have sh: "map (\<lambda>i. Some (VUint32 (count (dumper s) + of_nat i))) [1..<length (pkt # pkts) + 1] =
        Some (VUint32 (count (dumper s) + 1)) #
        map (\<lambda>i. Some (VUint32 (count (dumper s1) + of_nat i))) [1..<length pkts + 1]"
  proof -
    have "[1..<length (pkt # pkts) + 1] = 1 # map Suc [1..<length pkts + 1]"
      by (simp add: upt_conv_Cons map_Suc_upt del: upt_Suc)
    then show ?thesis by (simp add: k(2) o_def add.assoc del: upt_Suc)
  qed
  show ?case
    using h r ih k rd sh by (simp add: published_def add.assoc del: upt_Suc)
qed

lemma boot_Some:
  assumes "Parse eng pat = Inr tp"
  shows "\<exists>s. boot eng pat f dat w = Some s \<and> data (dumper s) = dat \<and> tmpl (dumper s) = Some tp \<and>
     count (dumper s) = 0 \<and> fn (dumper s) = f \<and> pattern (dumper s) = pat \<and>
     statIncomingRate (dumper s) = 0 \<and> statWorkRatio (dumper s) = 0 \<and>
     world s = w \<and> emitted s = [] \<and> trace s = []"
  using assms by (simp add: boot_def NewPktDumper_def addStats_def start_def Let_def)

lemmas parse_defs = go_Parse_def action_node_def trim_def is_space_def is_letter_def is_digit_def
  text_node_def go_template_def

lemma parse_count_pattern:
  "Parse go_fields ''pkt-{{.count}}'' = Inr (Fragment [TextNode ''pkt-'', FieldNode ''count'' []])"
  by (simp add: parse_defs)

lemma unat_count_add:
  "unat (c::32 word) + n < 2 ^ 32 \<Longrightarrow> unat (c + of_nat n) = unat c + n"
  by (simp add: unat_word_ariths unat_of_nat)

lemma parse_example_pattern:
  "Parse go_fields ''/out/pkt-{{.count}}-{{.stream_idx}}.raw'' =
     Inr (Fragment [TextNode ''/out/pkt-'', FieldNode ''count'' [], TextNode ''-'',
          FieldNode ''stream_idx'' [], TextNode ''.raw''])"
  by (simp add: parse_defs)

lemma handle_other_keys:
  "k \<notin> {''count'', ''pts'', ''stream_idx''} \<Longrightarrow>
   data_read (data (dumper (snd (handle eng pkt s)))) k = data_read (data (dumper s)) k"
  by (simp add: handle_data data_read_def published_def split: option.splits)

lemma run_other_keys:
  "k \<notin> {''count'', ''pts'', ''stream_idx''} \<Longrightarrow>
   data_read (data (dumper (snd (run eng pkts s)))) k = data_read (data (dumper s)) k"
proof (induction pkts arbitrary: s)
  case Nil
  then show ?case by simp
next
  case (Cons pkt pkts)
  obtain res s1 where h: "handle eng pkt s = (res, s1)" by (cases "handle eng pkt s")
  have k1: "data_read (data (dumper s1)) k = data_read (data (dumper s)) k"
    using handle_other_keys[OF Cons.prems, of eng pkt s] h by simp
  show ?case
  proof (cases res)
    case Returned
    with h k1 Cons.IH[OF Cons.prems, of s1] show ?thesis by simp
  next
    case (Panicked msg)
    with h k1 show ?thesis by simp
  qed
qed


lemma parse_streamIndex: "Parse go_fields ''{{.streamIndex}}'' = Inr (Fragment [FieldNode ''streamIndex'' []])"
  by (simp add: parse_defs)

lemma PktDumpFile_disk:
  "PktDumpFile pkt path disk =
     (None, disk\<lparr>files := [path \<mapsto> Data pkt], writes := [(path, Data pkt)]\<rparr>)"
  by (simp add: PktDumpFile_def os_Create_def File_Write_def File_Close_def disk_def
      content_def GoBytes_def Size_def)






lemma handle_nil_tmpl_panics:
  assumes "tmpl (dumper s) = None"
  shows "(\<exists>msg. fst (handle eng pkt s) = Panicked msg) \<and>
     dumps (trace (snd (handle eng pkt s))) = dumps (trace s)"
proof (cases "data (dumper s)")
  case None
  then show ?thesis by (simp add: handle_nil_data dumps_append)
next
  case (Some m)
  with assms show ?thesis by (simp add: handle_nil_tmpl dumps_append)
qed

lemma run_tmpl: "tmpl (dumper (snd (run eng pkts s))) = tmpl (dumper s)"
proof (induction pkts arbitrary: s)
  case Nil
  then show ?case by simp
next
  case (Cons pkt pkts)
  obtain res s1 where h: "handle eng pkt s = (res, s1)" by (cases "handle eng pkt s")
  have k1: "tmpl (dumper s1) = tmpl (dumper s)"
    using handle_keeps[of eng pkt s] h by simp
  show ?case
  proof (cases res)
    case Returned
    with h k1 Cons.IH[of s1] show ?thesis by simp
  next
    case (Panicked msg)
    with h k1 show ?thesis by simp
  qed
qed

lemma parse_unclosed: "Parse go_fields ''{{'' = Inl (Err ''unclosed action'')"
  by (simp add: parse_defs)

subsection \<open>Properties of the loop\<close>



















section \<open>The claims\<close>

subsection \<open>C1: the sequence counter\<close>

text \<open>
  C1, as the code has it. The counter \<open>count\<close> of a node that \<open>NewPktDumper\<close> returns
  is 0. The callback adds exactly 1 to it (in \<open>uint32\<close> arithmetic) for every packet,
  as its second effect, after the incoming rate and before anything is stored, rendered or
  dumped. For a node with a map and a template, and as long as the counter stays below
  \<open>2 ^ 32\<close>, handling \<open>N\<close> packets one after the other returns, leaves the counter
  \<open>N\<close> higher, and the values of \<open>count\<close> that the template is executed with are the
  next \<open>N\<close> numbers in the order of the packets (\<open>1..N\<close> for a fresh node).
\<close>

theorem sequence_counter:
  "(fst (snd (NewPktDumper eng pat f dat g)) = Some d \<longrightarrow> count d = 0) \<and>
   count (dumper (snd (handle eng pkt s))) = count (dumper s) + 1 \<and>
   (\<exists>rest. trace (snd (handle eng pkt s)) =
      trace s @ [IncomingRateAdd 1, CountAdd (count (dumper s) + 1)] @ rest) \<and>
   (data (dumper s) = Some m \<and> tmpl (dumper s) = Some tp \<and>
    unat (count (dumper s)) + length pkts < 2 ^ 32 \<longrightarrow>
      (\<exists>s'. run eng pkts s = (Returned, s') \<and>
         unat (count (dumper s')) = unat (count (dumper s)) + length pkts \<and>
         map (\<lambda>x. x ''count'') (rendered (trace s')) =
           map (\<lambda>x. x ''count'') (rendered (trace s)) @
           map (\<lambda>i. Some (VUint32 (count (dumper s) + of_nat i))) [1..<length pkts + 1]))"
proof (intro conjI impI)
  assume "fst (snd (NewPktDumper eng pat f dat g)) = Some d"
  then show "count d = 0"
    by (auto simp add: NewPktDumper_def addStats_def Let_def split: sum.splits)
next
  show "count (dumper (snd (handle eng pkt s))) = count (dumper s) + 1"
    using handle_keeps[of eng pkt s] by simp
next
  show "\<exists>rest. trace (snd (handle eng pkt s)) =
      trace s @ [IncomingRateAdd 1, CountAdd (count (dumper s) + 1)] @ rest"
    by (auto simp add: handle_def step_defs Let_def split: option.splits sum.splits prod.splits)
next
  assume a: "data (dumper s) = Some m \<and> tmpl (dumper s) = Some tp \<and>
    unat (count (dumper s)) + length pkts < 2 ^ 32"
  then obtain s' where r: "run eng pkts s = (Returned, s')"
    and c: "count (dumper s') = count (dumper s) + of_nat (length pkts)"
    and rd: "map (\<lambda>x. x ''count'') (rendered (trace s')) =
       map (\<lambda>x. x ''count'') (rendered (trace s)) @
       map (\<lambda>i. Some (VUint32 (count (dumper s) + of_nat i))) [1..<length pkts + 1]"
    using run_snoc_free[of s m tp eng pkts] by blast
  have "unat (count (dumper s')) = unat (count (dumper s)) + length pkts"
    unfolding c using a by (simp add: unat_count_add)
  with r rd show "\<exists>s'. run eng pkts s = (Returned, s') \<and>
         unat (count (dumper s')) = unat (count (dumper s)) + length pkts \<and>
         map (\<lambda>x. x ''count'') (rendered (trace s')) =
           map (\<lambda>x. x ''count'') (rendered (trace s)) @
           map (\<lambda>i. Some (VUint32 (count (dumper s) + of_nat i))) [1..<length pkts + 1]"
    by blast
qed

text \<open>Three packets through a fresh node that writes files: the counter ends at 3 and the
  template saw 1, 2 and 3.\<close>

theorem sequence_counter_witness:
  "map_option (\<lambda>(res, s). (res, unat (count (dumper s)), map (\<lambda>x. x ''count'') (rendered (trace s))))
     (map_option (run go_fields [packet 0 [1], packet 1 [2], packet 0 [3]])
        (boot go_fields ''/out/pkt-{{.count}}-{{.stream_idx}}.raw'' PktDumpFile (Some Map.empty) disk))
   = Some (Returned, 3, [Some (VUint32 1), Some (VUint32 2), Some (VUint32 3)])"
proof -
  let ?pkts = "[packet 0 [1], packet 1 [2], packet 0 [3]]"
  let ?tp = "Fragment [TextNode ''/out/pkt-'', FieldNode ''count'' [], TextNode ''-'',
          FieldNode ''stream_idx'' [], TextNode ''.raw'']"
  obtain s where b: "boot go_fields ''/out/pkt-{{.count}}-{{.stream_idx}}.raw'' PktDumpFile
       (Some Map.empty) disk = Some s"
    and d: "data (dumper s) = Some Map.empty" and t: "tmpl (dumper s) = Some ?tp"
    and c: "count (dumper s) = 0" and tr: "trace s = []"
    using boot_Some[OF parse_example_pattern, of PktDumpFile "Some Map.empty" disk] by blast
  have "\<exists>s'. run go_fields ?pkts s = (Returned, s') \<and>
         unat (count (dumper s')) = unat (count (dumper s)) + length ?pkts \<and>
         map (\<lambda>x. x ''count'') (rendered (trace s')) =
           map (\<lambda>x. x ''count'') (rendered (trace s)) @
           map (\<lambda>i. Some (VUint32 (count (dumper s) + of_nat i))) [1..<length ?pkts + 1]"
  proof -
    have hyp: "data (dumper s) = Some Map.empty \<and> tmpl (dumper s) = Some ?tp \<and>
       unat (count (dumper s)) + length ?pkts < 2 ^ 32"
      using d t c by simp
    show ?thesis
      using sequence_counter[where eng = go_fields and s = s and m = Map.empty and tp = ?tp
        and pkts = ?pkts and pat = "[]" and f = PktDumpFile and dat = None and g = 0
        and d = "dumper s" and pkt = "packet 0 []"] hyp
      by blast
  qed
  then obtain s' where r: "run go_fields ?pkts s = (Returned, s')"
    and n: "unat (count (dumper s')) = 3"
    and rd: "map (\<lambda>x. x ''count'') (rendered (trace s')) =
       [Some (VUint32 1), Some (VUint32 2), Some (VUint32 3)]"
    using c tr by (auto simp add: upt_rec)
  show ?thesis by (simp only: b r n rd option.map prod.case)
qed

text \<open>
  The counter is a \<open>uint32\<close>: the claim's "equals N afterwards" and "never decreases or
  resets" fail at \<open>N = 2 ^ 32\<close>. After 4294967296 packets a fresh node is back at 0.
\<close>

theorem sequence_counter_wraps:
  "map_option (\<lambda>(res, s). (res, count (dumper s)))
     (map_option (run go_fields (replicate 4294967296 (packet 0 [])))
        (boot go_fields ''pkt-{{.count}}'' PktDumpFile (Some Map.empty) disk)) = Some (Returned, 0)"
proof -
  define pkts where "pkts = replicate 4294967296 (packet 0 [])"
  have len: "length pkts = 4294967296" unfolding pkts_def by (rule length_replicate)
  obtain s where b: "boot go_fields ''pkt-{{.count}}'' PktDumpFile (Some Map.empty) disk = Some s"
    and d: "data (dumper s) = Some Map.empty"
    and t: "tmpl (dumper s) = Some (Fragment [TextNode ''pkt-'', FieldNode ''count'' []])"
    and c: "count (dumper s) = 0"
    using boot_Some[OF parse_count_pattern, of PktDumpFile "Some Map.empty" disk] by blast
  obtain s' where r: "run go_fields pkts s = (Returned, s')"
    and c': "count (dumper s') = count (dumper s) + of_nat (length pkts)"
    using run_snoc_free[OF d t, of go_fields pkts] by blast
  have z: "count (dumper s') = 0" unfolding c' c len by simp
  have "map_option (\<lambda>(res, s). (res, count (dumper s)))
     (map_option (run go_fields pkts)
        (boot go_fields ''pkt-{{.count}}'' PktDumpFile (Some Map.empty) disk)) = Some (Returned, 0)"
    by (simp only: b r z option.map prod.case)
  then show ?thesis unfolding pkts_def .
qed

subsection \<open>C2: the variables given to the template\<close>

text \<open>
  C2, as the code has it. For every packet handled by a node with a map and a template,
  the callback stores, before it executes the template, exactly the three entries
  \<open>count\<close> (the new counter value), \<open>pts\<close> (the packet's timestamp) and \<open>stream_idx\<close>
  (the packet's stream index); the template is executed on the resulting map, which has
  these three keys and every other key of the caller's map with its value.
\<close>

theorem naming_variables:
  "data (dumper s) = Some m \<and> tmpl (dumper s) = Some tp \<longrightarrow>
     (\<exists>rest. trace (snd (handle eng pkt s)) =
        trace s @
        [IncomingRateAdd 1,
         CountAdd (count (dumper s) + 1),
         DataStore ''count'' (VUint32 (count (dumper s) + 1)),
         DataStore ''pts'' (VInt64 (Pts pkt)),
         DataStore ''stream_idx'' (VInt (StreamIndex pkt)),
         WorkRatioAdd,
         TemplateExecute (published m (count (dumper s) + 1) pkt)
           (Execute eng tp (published m (count (dumper s) + 1) pkt))] @ rest) \<and>
     published m (count (dumper s) + 1) pkt ''count'' = Some (VUint32 (count (dumper s) + 1)) \<and>
     published m (count (dumper s) + 1) pkt ''pts'' = Some (VInt64 (Pts pkt)) \<and>
     published m (count (dumper s) + 1) pkt ''stream_idx'' = Some (VInt (StreamIndex pkt)) \<and>
     (\<forall>k. k \<notin> {''count'', ''pts'', ''stream_idx''} \<longrightarrow>
        published m (count (dumper s) + 1) pkt k = m k) \<and>
     dom (published m (count (dumper s) + 1) pkt) = dom m \<union> {''count'', ''pts'', ''stream_idx''}"
proof (intro impI conjI allI)
  assume a: "data (dumper s) = Some m \<and> tmpl (dumper s) = Some tp"
  show "\<exists>rest. trace (snd (handle eng pkt s)) =
        trace s @
        [IncomingRateAdd 1,
         CountAdd (count (dumper s) + 1),
         DataStore ''count'' (VUint32 (count (dumper s) + 1)),
         DataStore ''pts'' (VInt64 (Pts pkt)),
         DataStore ''stream_idx'' (VInt (StreamIndex pkt)),
         WorkRatioAdd,
         TemplateExecute (published m (count (dumper s) + 1) pkt)
           (Execute eng tp (published m (count (dumper s) + 1) pkt))] @ rest"
    using a
    by (auto simp add: handle_def step_defs Let_def published_def
        split: option.splits sum.splits prod.splits)
next
  show "published m (count (dumper s) + 1) pkt ''count'' = Some (VUint32 (count (dumper s) + 1))"
    by (simp add: published_def)
  show "published m (count (dumper s) + 1) pkt ''pts'' = Some (VInt64 (Pts pkt))"
    by (simp add: published_def)
  show "published m (count (dumper s) + 1) pkt ''stream_idx'' = Some (VInt (StreamIndex pkt))"
    by (simp add: published_def)
  show "dom (published m (count (dumper s) + 1) pkt) = dom m \<union> {''count'', ''pts'', ''stream_idx''}"
    by (auto simp add: published_def)
next
  fix k :: string
  assume "k \<notin> {''count'', ''pts'', ''stream_idx''}"
  then show "published m (count (dumper s) + 1) pkt k = m k"
    by (rule published_other)
qed

text \<open>A packet of stream 7 through a fresh node whose map has the entry \<open>input\<close>.\<close>

theorem naming_variables_witness:
  "map_option (\<lambda>s. take 7 (trace (snd (handle go_fields (packet 7 []) s))))
     (boot go_fields ''pkt-{{.count}}'' PktDumpFile (Some [''input'' \<mapsto> VString ''cam'']) disk) =
   Some [IncomingRateAdd 1,
         CountAdd 1,
         DataStore ''count'' (VUint32 1),
         DataStore ''pts'' (VInt64 0),
         DataStore ''stream_idx'' (VInt 7),
         WorkRatioAdd,
         TemplateExecute
           [''input'' \<mapsto> VString ''cam'', ''count'' \<mapsto> VUint32 1, ''pts'' \<mapsto> VInt64 0,
            ''stream_idx'' \<mapsto> VInt 7]
           (Inr ''pkt-1'')]"
proof -
  let ?m = "[''input'' \<mapsto> VString ''cam'']"
  let ?tp = "Fragment [TextNode ''pkt-'', FieldNode ''count'' []]"
  obtain s where b: "boot go_fields ''pkt-{{.count}}'' PktDumpFile (Some ?m) disk = Some s"
    and d: "data (dumper s) = Some ?m" and t: "tmpl (dumper s) = Some ?tp"
    and c: "count (dumper s) = 0" and tr: "trace s = []"
    using boot_Some[OF parse_count_pattern, of PktDumpFile "Some ?m" disk] by blast
  have hyp: "data (dumper s) = Some ?m \<and> tmpl (dumper s) = Some ?tp" using d t by simp
  from naming_variables[of s ?m ?tp go_fields "packet 7 []", rule_format, OF hyp]
  obtain rest where r: "trace (snd (handle go_fields (packet 7 []) s)) =
        trace s @
        [IncomingRateAdd 1,
         CountAdd (count (dumper s) + 1),
         DataStore ''count'' (VUint32 (count (dumper s) + 1)),
         DataStore ''pts'' (VInt64 (Pts (packet 7 []))),
         DataStore ''stream_idx'' (VInt (StreamIndex (packet 7 []))),
         WorkRatioAdd,
         TemplateExecute (published ?m (count (dumper s) + 1) (packet 7 []))
           (Execute go_fields ?tp (published ?m (count (dumper s) + 1) (packet 7 [])))] @ rest"
    by blast
  have ex: "Execute go_fields ?tp (published ?m 1 (packet 7 [])) = Inr ''pkt-1''"
    by (simp add: go_template_def published_def decimal.simps digit_def)
  have "take 7 (trace (snd (handle go_fields (packet 7 []) s))) =
     [IncomingRateAdd 1, CountAdd 1, DataStore ''count'' (VUint32 1), DataStore ''pts'' (VInt64 0),
      DataStore ''stream_idx'' (VInt 7), WorkRatioAdd,
      TemplateExecute
           [''input'' \<mapsto> VString ''cam'', ''count'' \<mapsto> VUint32 1, ''pts'' \<mapsto> VInt64 0,
            ''stream_idx'' \<mapsto> VInt 7]
           (Inr ''pkt-1'')]"
    unfolding r c tr by (simp add: ex) (simp add: published_def packet_def)
  then show ?thesis by (simp only: b option.map)
qed

text \<open>
  The claim names the third variable \<open>streamIndex\<close>; the code stores \<open>stream_idx\<close>. After
  a packet of stream 7 the map has no key \<open>streamIndex\<close>, and a pattern that refers to it
  names the file \<open><no value>\<close>.
\<close>

theorem naming_variables_counterexample:
  "map_option (\<lambda>s. (data_read (data (dumper (snd (handle go_fields (packet 7 []) s)))) ''streamIndex'',
                    data_read (data (dumper (snd (handle go_fields (packet 7 []) s)))) ''stream_idx'',
                    dumps (trace (snd (handle go_fields (packet 7 []) s)))))
     (boot go_fields ''{{.streamIndex}}'' PktDumpFile (Some Map.empty) disk) =
   Some (None, Some (VInt 7), [(packet 7 [], ''<no value>'')])"
proof -
  let ?tp = "Fragment [FieldNode ''streamIndex'' []]"
  let ?pkt = "packet 7 []"
  obtain s where b: "boot go_fields ''{{.streamIndex}}'' PktDumpFile (Some Map.empty) disk = Some s"
    and d: "data (dumper s) = Some Map.empty" and t: "tmpl (dumper s) = Some ?tp"
    and c: "count (dumper s) = 0" and tr: "trace s = []" and f: "fn (dumper s) = PktDumpFile"
    and w: "world s = disk"
    using boot_Some[OF parse_streamIndex, of PktDumpFile "Some Map.empty" disk] by blast
  have ex: "Execute go_fields ?tp (published Map.empty (count (dumper s) + 1) ?pkt) = Inr ''<no value>''"
    by (simp add: go_template_def published_def)
  have du: "fn (dumper s) ?pkt ''<no value>'' (world s) =
     (None, disk\<lparr>files := [''<no value>'' \<mapsto> Data ?pkt], writes := [(''<no value>'', Data ?pkt)]\<rparr>)"
    unfolding f w by (rule PktDumpFile_disk)
  have h: "dumps (trace (snd (handle go_fields ?pkt s))) = [(?pkt, ''<no value>'')]"
    by (simp add: handle_ok[OF d t ex du] tr dumps_append dumps_prelude)
  have k1: "data_read (data (dumper (snd (handle go_fields ?pkt s)))) ''streamIndex'' = None"
    by (simp add: handle_data d data_read_def published_def)
  have k2: "data_read (data (dumper (snd (handle go_fields ?pkt s)))) ''stream_idx'' = Some (VInt 7)"
    by (simp add: handle_data d data_read_def published_def packet_def)
  show ?thesis by (simp only: b option.map h k1 k2)
qed

subsection \<open>C3: a template that fails to execute\<close>




subsection \<open>C4: a pattern that does not parse\<close>

text \<open>
  C4. When parsing the pattern fails, \<open>NewPktDumper\<close> returns at once an error that wraps
  the parse error with a message naming the pattern. The node it returns with the error
  has no template and cannot be used: handling any packet with it panics before the dump
  function is called, and a caller that checks the error has no node. When the pattern
  parses, the template is set by the constructor and is the same after any number of
  packets: nothing parses it again.
\<close>

theorem constructor_parse:
  "(Parse eng pat = Inl perr \<longrightarrow>
      (\<exists>d. NewPktDumper eng pat f dat g =
             (g + 1, Some d,
              Some (Wrapf perr [Lit ''astilibav: parsing pattern '', Lit pat,
                                Lit '' as template failed''])) \<and>
           tmpl d = None \<and>
           (\<forall>s pkt. dumper s = d \<longrightarrow>
              (\<exists>msg. fst (handle eng pkt s) = Panicked msg) \<and>
              dumps (trace (snd (handle eng pkt s))) = dumps (trace s))) \<and>
      boot eng pat f dat w = None) \<and>
   (Parse eng pat = Inr tp \<longrightarrow>
      (\<exists>d. NewPktDumper eng pat f dat g = (g + 1, Some d, None) \<and>
           tmpl d = Some tp \<and>
           (\<forall>pkts. tmpl (dumper (snd (run eng pkts (start d w)))) = Some tp)))"
proof (intro conjI impI)
  assume p: "Parse eng pat = Inl perr"
  obtain d where n: "NewPktDumper eng pat f dat g =
             (g + 1, Some d,
              Some (Wrapf perr [Lit ''astilibav: parsing pattern '', Lit pat,
                                Lit '' as template failed'']))"
    and t: "tmpl d = None"
    using p by (simp add: NewPktDumper_def addStats_def parse_failed_def Let_def)
  have "\<forall>s pkt. dumper s = d \<longrightarrow>
              (\<exists>msg. fst (handle eng pkt s) = Panicked msg) \<and>
              dumps (trace (snd (handle eng pkt s))) = dumps (trace s)"
    using t handle_nil_tmpl_panics by blast
  with n t show "\<exists>d. NewPktDumper eng pat f dat g =
             (g + 1, Some d,
              Some (Wrapf perr [Lit ''astilibav: parsing pattern '', Lit pat,
                                Lit '' as template failed''])) \<and>
           tmpl d = None \<and>
           (\<forall>s pkt. dumper s = d \<longrightarrow>
              (\<exists>msg. fst (handle eng pkt s) = Panicked msg) \<and>
              dumps (trace (snd (handle eng pkt s))) = dumps (trace s))"
    by blast
  show "boot eng pat f dat w = None"
    using p by (simp add: boot_def NewPktDumper_def Let_def)
next
  assume p: "Parse eng pat = Inr tp"
  obtain d where n: "NewPktDumper eng pat f dat g = (g + 1, Some d, None)"
    and t: "tmpl d = Some tp"
    using p by (simp add: NewPktDumper_def addStats_def Let_def)
  have "\<forall>pkts. tmpl (dumper (snd (run eng pkts (start d w)))) = Some tp"
    by (simp add: run_tmpl start_def t)
  with n t show "\<exists>d. NewPktDumper eng pat f dat g = (g + 1, Some d, None) \<and>
           tmpl d = Some tp \<and>
           (\<forall>pkts. tmpl (dumper (snd (run eng pkts (start d w)))) = Some tp)"
    by blast
qed

text \<open>The pattern \<open>{{\<close> and the pattern \<open>pkt-{{.count}}\<close>.\<close>

theorem constructor_parse_witness:
  "snd (snd (NewPktDumper go_fields ''{{'' PktDumpFile (Some Map.empty) 0)) =
     Some (Wrapf (Err ''unclosed action'')
             [Lit ''astilibav: parsing pattern '', Lit ''{{'', Lit '' as template failed'']) \<and>
   boot go_fields ''{{'' PktDumpFile (Some Map.empty) disk = None \<and>
   map_option (\<lambda>d. fst (handle go_fields (packet 0 []) (start d disk)))
     (fst (snd (NewPktDumper go_fields ''{{'' PktDumpFile (Some Map.empty) 0))) =
     Some (Panicked ''nil pointer dereference'') \<and>
   map_option (\<lambda>d. tmpl (dumper (snd (run go_fields [packet 0 [], packet 1 []] (start d disk)))))
     (fst (snd (NewPktDumper go_fields ''pkt-{{.count}}'' PktDumpFile (Some Map.empty) 0))) =
     Some (Some (Fragment [TextNode ''pkt-'', FieldNode ''count'' []]))"
proof -
  note c = constructor_parse[of go_fields "''{{''" "Err ''unclosed action''" PktDumpFile "Some Map.empty" 0 disk
      "Fragment []", THEN conjunct1, rule_format, OF parse_unclosed]
  from c obtain d where n: "NewPktDumper go_fields ''{{'' PktDumpFile (Some Map.empty) 0 =
       (0 + 1, Some d, Some (Wrapf (Err ''unclosed action'')
             [Lit ''astilibav: parsing pattern '', Lit ''{{'', Lit '' as template failed'']))"
    and t: "tmpl d = None" by blast
  have dd: "data d = Some Map.empty"
    using n by (auto simp add: NewPktDumper_def addStats_def Let_def split: sum.splits)
  have 1: "snd (snd (NewPktDumper go_fields ''{{'' PktDumpFile (Some Map.empty) 0)) =
     Some (Wrapf (Err ''unclosed action'')
             [Lit ''astilibav: parsing pattern '', Lit ''{{'', Lit '' as template failed''])"
    by (simp add: n)
  have 2: "boot go_fields ''{{'' PktDumpFile (Some Map.empty) disk = None"
    using c by blast
  have "fst (handle go_fields (packet 0 []) (start d disk)) = Panicked ''nil pointer dereference''"
    using handle_nil_tmpl[of "start d disk" Map.empty go_fields "packet 0 []"] dd t
    by (simp add: start_def)
  then have 3: "map_option (\<lambda>d. fst (handle go_fields (packet 0 []) (start d disk)))
     (fst (snd (NewPktDumper go_fields ''{{'' PktDumpFile (Some Map.empty) 0))) =
     Some (Panicked ''nil pointer dereference'')"
    by (simp add: n)
  note c2 = constructor_parse[of go_fields "''pkt-{{.count}}''" _ PktDumpFile "Some Map.empty" 0 disk
      "Fragment [TextNode ''pkt-'', FieldNode ''count'' []]", THEN conjunct2, rule_format, OF parse_count_pattern]
  from c2 obtain d2 where n2: "NewPktDumper go_fields ''pkt-{{.count}}'' PktDumpFile (Some Map.empty) 0 =
       (0 + 1, Some d2, None)"
    and r2: "\<forall>pkts. tmpl (dumper (snd (run go_fields pkts (start d2 disk)))) =
       Some (Fragment [TextNode ''pkt-'', FieldNode ''count'' []])"
    by blast
  have 4: "map_option (\<lambda>d. tmpl (dumper (snd (run go_fields [packet 0 [], packet 1 []] (start d disk)))))
     (fst (snd (NewPktDumper go_fields ''pkt-{{.count}}'' PktDumpFile (Some Map.empty) 0))) =
     Some (Some (Fragment [TextNode ''pkt-'', FieldNode ''count'' []]))"
    by (simp only: n2 fst_conv snd_conv option.map
          r2[rule_format, of "[packet 0 [], packet 1 []]"])
  from 1 2 3 4 show ?thesis by (intro conjI)
qed

subsection \<open>C5: a dump function that fails\<close>




subsection \<open>C6: the default dump function\<close>

text \<open>
  C6. \<open>PktDumpFile\<close> creates the file at the given path, or truncates it, writes the bytes
  of the packet to it with one \<open>Write\<close>, closes it and returns no error: afterwards the file
  holds exactly the payload and no file is left open. When the file cannot be created it
  returns the error wrapped with the path and changes nothing; when the write fails it
  returns the error wrapped with the path, and the file is closed all the same.
\<close>

theorem dump_to_file:
  "(create_fails x path = None \<and> write_fails x path = None \<longrightarrow>
      PktDumpFile pkt path x =
        (None, x\<lparr>files := (files x)(path \<mapsto> Data pkt), writes := writes x @ [(path, Data pkt)]\<rparr>)) \<and>
   (create_fails x path = Some err \<longrightarrow>
      PktDumpFile pkt path x =
        (Some (Wrapf err [Lit ''astilibav: creating file '', Lit path, Lit '' failed'']), x)) \<and>
   (create_fails x path = None \<and> write_fails x path = Some (n, err) \<longrightarrow>
      fst (PktDumpFile pkt path x) =
        Some (Wrapf err [Lit ''astilibav: writing to file '', Lit path, Lit '' failed'']) \<and>
      open_files (snd (PktDumpFile pkt path x)) = open_files x \<and>
      writes (snd (PktDumpFile pkt path x)) = writes x @ [(path, Data pkt)])"
  by (simp add: PktDumpFile_def os_Create_def File_Write_def File_Close_def content_def
      GoBytes_def Size_def create_failed_def write_failed_def)

text \<open>A disk that holds \<open>a.raw\<close> already, a disk that refuses the file, and a full disk.\<close>

theorem dump_to_file_witness:
  "PktDumpFile (packet 0 [1, 2]) ''a.raw'' used_disk =
     (None, used_disk\<lparr>files := [''a.raw'' \<mapsto> [1, 2]], writes := [(''a.raw'', [1, 2])]\<rparr>) \<and>
   PktDumpFile (packet 0 [1, 2]) ''a.raw'' failing_disk =
     (Some (Wrapf (Err ''permission denied'')
              [Lit ''astilibav: creating file '', Lit ''a.raw'', Lit '' failed'']), failing_disk) \<and>
   fst (PktDumpFile (packet 0 [1, 2]) ''a.raw'' full_disk) =
     Some (Wrapf (Err ''no space left on device'')
             [Lit ''astilibav: writing to file '', Lit ''a.raw'', Lit '' failed'']) \<and>
   open_files (snd (PktDumpFile (packet 0 [1, 2]) ''a.raw'' full_disk)) = []"
proof -
  have 1: "PktDumpFile (packet 0 [1, 2]) ''a.raw'' used_disk =
     (None, used_disk\<lparr>files := [''a.raw'' \<mapsto> [1, 2]], writes := [(''a.raw'', [1, 2])]\<rparr>)"
    using dump_to_file[where x = used_disk and path = "''a.raw''" and pkt = "packet 0 [1, 2]",
        THEN conjunct1]
    by (simp add: used_disk_def disk_def packet_def)
  have 2: "PktDumpFile (packet 0 [1, 2]) ''a.raw'' failing_disk =
     (Some (Wrapf (Err ''permission denied'')
              [Lit ''astilibav: creating file '', Lit ''a.raw'', Lit '' failed'']), failing_disk)"
    using dump_to_file[where x = failing_disk and path = "''a.raw''" and pkt = "packet 0 [1, 2]"
        and err = "Err ''permission denied''", THEN conjunct2, THEN conjunct1]
    by (simp add: failing_disk_def disk_def)
  have 3: "fst (PktDumpFile (packet 0 [1, 2]) ''a.raw'' full_disk) =
     Some (Wrapf (Err ''no space left on device'')
             [Lit ''astilibav: writing to file '', Lit ''a.raw'', Lit '' failed'']) \<and>
     open_files (snd (PktDumpFile (packet 0 [1, 2]) ''a.raw'' full_disk)) = []"
    using dump_to_file[where x = full_disk and path = "''a.raw''" and pkt = "packet 0 [1, 2]"
        and n = 1 and err = "Err ''no space left on device''", THEN conjunct2, THEN conjunct2]
    by (simp add: full_disk_def disk_def)
  from 1 2 3 show ?thesis by (intro conjI) simp_all
qed

subsection \<open>C7: the other keys of the map\<close>

text \<open>
  C7, as the code has it. Handling a packet changes the map of the node at the keys
  \<open>count\<close>, \<open>pts\<close> and \<open>stream_idx\<close> only: every other key reads the same after one
  packet and after any number of packets.
\<close>

theorem frame_of_data:
  "(\<forall>k. k \<notin> {''count'', ''pts'', ''stream_idx''} \<longrightarrow>
      data_read (data (dumper (snd (handle eng pkt s)))) k = data_read (data (dumper s)) k) \<and>
   (\<forall>k. k \<notin> {''count'', ''pts'', ''stream_idx''} \<longrightarrow>
      data_read (data (dumper (snd (run eng pkts s)))) k = data_read (data (dumper s)) k)"
proof (intro conjI allI impI)
  fix k :: string
  assume k: "k \<notin> {''count'', ''pts'', ''stream_idx''}"
  show "data_read (data (dumper (snd (handle eng pkt s)))) k = data_read (data (dumper s)) k"
    using k by (rule handle_other_keys)
  show "data_read (data (dumper (snd (run eng pkts s)))) k = data_read (data (dumper s)) k"
    using k by (rule run_other_keys)
qed

text \<open>The caller's entry \<open>input\<close> after two packets.\<close>

theorem frame_of_data_witness:
  "map_option (\<lambda>s. data_read (data (dumper (snd (run go_fields [packet 7 [], packet 8 []] s)))) ''input'')
     (boot go_fields ''pkt-{{.count}}'' PktDumpFile (Some [''input'' \<mapsto> VString ''cam'']) disk) =
   Some (Some (VString ''cam''))"
proof -
  obtain s where b: "boot go_fields ''pkt-{{.count}}'' PktDumpFile (Some [''input'' \<mapsto> VString ''cam'']) disk = Some s"
    and d: "data (dumper s) = Some [''input'' \<mapsto> VString ''cam'']"
    using boot_Some[OF parse_count_pattern, of PktDumpFile "Some [''input'' \<mapsto> VString ''cam'']" disk] by blast
  have "data_read (data (dumper (snd (run go_fields [packet 7 [], packet 8 []] s)))) ''input'' =
     data_read (data (dumper s)) ''input''"
    by (rule frame_of_data[of go_fields "packet 7 []" s "[packet 7 [], packet 8 []]",
          THEN conjunct2, rule_format, of "''input''"]) simp
  then have "data_read (data (dumper (snd (run go_fields [packet 7 [], packet 8 []] s)))) ''input'' =
     Some (VString ''cam'')"
    by (simp only: d data_read_def option.case fun_upd_same)
  then show ?thesis by (simp only: b option.map)
qed

text \<open>
  The claim lets every key but \<open>count\<close>, \<open>pts\<close> and \<open>streamIndex\<close> keep its value. The
  caller's entry under \<open>stream_idx\<close> is such a key, and the first packet overwrites it.
\<close>

theorem frame_of_data_counterexample:
  "map_option (\<lambda>s. (data_read (data (dumper s)) ''stream_idx'',
                    data_read (data (dumper (snd (handle go_fields (packet 7 []) s)))) ''stream_idx''))
     (boot go_fields ''pkt-{{.count}}'' PktDumpFile (Some [''stream_idx'' \<mapsto> VString ''left'']) disk) =
   Some (Some (VString ''left''), Some (VInt 7))"
proof -
  obtain s where b: "boot go_fields ''pkt-{{.count}}'' PktDumpFile (Some [''stream_idx'' \<mapsto> VString ''left'']) disk = Some s"
    and d: "data (dumper s) = Some [''stream_idx'' \<mapsto> VString ''left'']"
    using boot_Some[OF parse_count_pattern, of PktDumpFile "Some [''stream_idx'' \<mapsto> VString ''left'']" disk] by blast
  have "data_read (data (dumper (snd (handle go_fields (packet 7 []) s)))) ''stream_idx'' = Some (VInt 7)"
    by (simp add: handle_data d data_read_def published_def packet_def)
  moreover have "data_read (data (dumper s)) ''stream_idx'' = Some (VString ''left'')"
    by (simp add: d data_read_def)
  ultimately show ?thesis by (simp only: b option.map)
qed

subsection \<open>C8: the pause\<close>




subsection \<open>C9: the order of the steps\<close>

text \<open>
  C9. For every packet the callback first adds 1 to the incoming rate (whatever happens
  later to the packet), then adds 1 to the counter. On a node with a map and a template it
  then stores \<open>count\<close>, \<open>pts\<close> and \<open>stream_idx\<close>, executes the template between
  \<open>statWorkRatio.Add\<close> and \<open>statWorkRatio.Done\<close>, and, when the template gave a name,
  calls the dump function between a second \<open>Add\<close> and \<open>Done\<close>; an error of either step is
  emitted after the \<open>Done\<close> of that step, and every measurement that was opened is closed.
  On a node without a map or without a template the callback panics at the store or at
  the execution; the steps before that are the same, in the same order. In every case the
  steps are done and not only recorded: the node afterwards has the new rate, the new
  counter and the new map, the world is the one the dump function left, the events are
  the ones emitted, and nothing else has changed.
\<close>

theorem step_order:
  "statIncomingRate (dumper (snd (handle eng pkt s))) = statIncomingRate (dumper s) + 1 \<and>
   count (dumper (snd (handle eng pkt s))) = count (dumper s) + 1 \<and>
   (\<exists>rest. trace (snd (handle eng pkt s)) =
      trace s @ IncomingRateAdd 1 # CountAdd (count (dumper s) + 1) # rest) \<and>
   (data (dumper s) = None \<longrightarrow>
      handle eng pkt s =
        (Panicked ''assignment to entry in nil map'',
         s\<lparr>dumper := (dumper s)
              \<lparr>statIncomingRate := statIncomingRate (dumper s) + 1,
               count := count (dumper s) + 1\<rparr>,
           trace := trace s @
             [IncomingRateAdd 1,
              CountAdd (count (dumper s) + 1),
              PauseHandled,
              Panic ''assignment to entry in nil map'']\<rparr>)) \<and>
   (data (dumper s) = Some m \<and> tmpl (dumper s) = None \<longrightarrow>
      handle eng pkt s =
        (Panicked ''nil pointer dereference'',
         s\<lparr>dumper := (dumper s)
              \<lparr>statIncomingRate := statIncomingRate (dumper s) + 1,
               count := count (dumper s) + 1,
               data := Some (published m (count (dumper s) + 1) pkt),
               statWorkRatio := statWorkRatio (dumper s) + 1\<rparr>,
           trace := trace s @
             [IncomingRateAdd 1,
              CountAdd (count (dumper s) + 1),
              DataStore ''count'' (VUint32 (count (dumper s) + 1)),
              DataStore ''pts'' (VInt64 (Pts pkt)),
              DataStore ''stream_idx'' (VInt (StreamIndex pkt)),
              WorkRatioAdd,
              PauseHandled,
              Panic ''nil pointer dereference'']\<rparr>)) \<and>
   (data (dumper s) = Some m \<and> tmpl (dumper s) = Some tp \<longrightarrow>
      handle eng pkt s =
        (Returned,
         s\<lparr>dumper := (dumper s)
              \<lparr>statIncomingRate := statIncomingRate (dumper s) + 1,
               count := count (dumper s) + 1,
               data := Some (published m (count (dumper s) + 1) pkt)\<rparr>,
           world :=
             (case Execute eng tp (published m (count (dumper s) + 1) pkt) of
                Inl err \<Rightarrow> world s
              | Inr buf \<Rightarrow> snd (fn (dumper s) pkt buf (world s))),
           emitted := emitted s @
             (case Execute eng tp (published m (count (dumper s) + 1) pkt) of
                Inl err \<Rightarrow>
                  [execute_failed (pattern (dumper s)) (published m (count (dumper s) + 1) pkt) err]
              | Inr buf \<Rightarrow>
                  (case fst (fn (dumper s) pkt buf (world s)) of
                     Some err \<Rightarrow> [dump_failed buf err]
                   | None \<Rightarrow> [])),
           trace := trace s @
             [IncomingRateAdd 1,
              CountAdd (count (dumper s) + 1),
              DataStore ''count'' (VUint32 (count (dumper s) + 1)),
              DataStore ''pts'' (VInt64 (Pts pkt)),
              DataStore ''stream_idx'' (VInt (StreamIndex pkt)),
              WorkRatioAdd,
              TemplateExecute (published m (count (dumper s) + 1) pkt)
                (Execute eng tp (published m (count (dumper s) + 1) pkt)),
              WorkRatioDone] @
             (case Execute eng tp (published m (count (dumper s) + 1) pkt) of
                Inl err \<Rightarrow>
                  [EmitEvent (execute_failed (pattern (dumper s))
                                (published m (count (dumper s) + 1) pkt) err)]
              | Inr buf \<Rightarrow>
                  [WorkRatioAdd, DumpCall pkt buf (fst (fn (dumper s) pkt buf (world s))),
                   WorkRatioDone] @
                  (case fst (fn (dumper s) pkt buf (world s)) of
                     Some err \<Rightarrow> [EmitEvent (dump_failed buf err)]
                   | None \<Rightarrow> [])) @
             [PauseHandled]\<rparr>) \<and>
      statWorkRatio (dumper (snd (handle eng pkt s))) = statWorkRatio (dumper s))"
proof (intro conjI impI)
  show "statIncomingRate (dumper (snd (handle eng pkt s))) = statIncomingRate (dumper s) + 1"
    using handle_keeps[of eng pkt s] by simp
  show "count (dumper (snd (handle eng pkt s))) = count (dumper s) + 1"
    using handle_keeps[of eng pkt s] by simp
  show "\<exists>rest. trace (snd (handle eng pkt s)) =
      trace s @ IncomingRateAdd 1 # CountAdd (count (dumper s) + 1) # rest"
    by (auto simp add: handle_def step_defs Let_def split: option.splits sum.splits prod.splits)
next
  assume "data (dumper s) = None"
  then show "handle eng pkt s =
        (Panicked ''assignment to entry in nil map'',
         s\<lparr>dumper := (dumper s)
              \<lparr>statIncomingRate := statIncomingRate (dumper s) + 1,
               count := count (dumper s) + 1\<rparr>,
           trace := trace s @
             [IncomingRateAdd 1,
              CountAdd (count (dumper s) + 1),
              PauseHandled,
              Panic ''assignment to entry in nil map'']\<rparr>)"
    by (rule handle_nil_data)
next
  assume "data (dumper s) = Some m \<and> tmpl (dumper s) = None"
  then show "handle eng pkt s =
        (Panicked ''nil pointer dereference'',
         s\<lparr>dumper := (dumper s)
              \<lparr>statIncomingRate := statIncomingRate (dumper s) + 1,
               count := count (dumper s) + 1,
               data := Some (published m (count (dumper s) + 1) pkt),
               statWorkRatio := statWorkRatio (dumper s) + 1\<rparr>,
           trace := trace s @
             [IncomingRateAdd 1,
              CountAdd (count (dumper s) + 1),
              DataStore ''count'' (VUint32 (count (dumper s) + 1)),
              DataStore ''pts'' (VInt64 (Pts pkt)),
              DataStore ''stream_idx'' (VInt (StreamIndex pkt)),
              WorkRatioAdd,
              PauseHandled,
              Panic ''nil pointer dereference'']\<rparr>)"
    by (simp add: handle_nil_tmpl)
next
  assume a: "data (dumper s) = Some m \<and> tmpl (dumper s) = Some tp"
  then have d: "data (dumper s) = Some m" and t: "tmpl (dumper s) = Some tp" by simp_all
  let ?m = "published m (count (dumper s) + 1) pkt"
  show "handle eng pkt s =
        (Returned,
         s\<lparr>dumper := (dumper s)
              \<lparr>statIncomingRate := statIncomingRate (dumper s) + 1,
               count := count (dumper s) + 1,
               data := Some ?m\<rparr>,
           world :=
             (case Execute eng tp ?m of
                Inl err \<Rightarrow> world s
              | Inr buf \<Rightarrow> snd (fn (dumper s) pkt buf (world s))),
           emitted := emitted s @
             (case Execute eng tp ?m of
                Inl err \<Rightarrow> [execute_failed (pattern (dumper s)) ?m err]
              | Inr buf \<Rightarrow>
                  (case fst (fn (dumper s) pkt buf (world s)) of
                     Some err \<Rightarrow> [dump_failed buf err]
                   | None \<Rightarrow> [])),
           trace := trace s @
             [IncomingRateAdd 1,
              CountAdd (count (dumper s) + 1),
              DataStore ''count'' (VUint32 (count (dumper s) + 1)),
              DataStore ''pts'' (VInt64 (Pts pkt)),
              DataStore ''stream_idx'' (VInt (StreamIndex pkt)),
              WorkRatioAdd,
              TemplateExecute ?m (Execute eng tp ?m),
              WorkRatioDone] @
             (case Execute eng tp ?m of
                Inl err \<Rightarrow> [EmitEvent (execute_failed (pattern (dumper s)) ?m err)]
              | Inr buf \<Rightarrow>
                  [WorkRatioAdd, DumpCall pkt buf (fst (fn (dumper s) pkt buf (world s))),
                   WorkRatioDone] @
                  (case fst (fn (dumper s) pkt buf (world s)) of
                     Some err \<Rightarrow> [EmitEvent (dump_failed buf err)]
                   | None \<Rightarrow> [])) @
             [PauseHandled]\<rparr>)"
  proof (cases "Execute eng tp ?m")
    case (Inl err)
    show ?thesis by (simp add: handle_execute_fails[OF d t Inl] Inl prelude_def)
  next
    case (Inr buf)
    obtain r w where f: "fn (dumper s) pkt buf (world s) = (r, w)"
      by (cases "fn (dumper s) pkt buf (world s)")
    show ?thesis
    proof (cases r)
      case None
      show ?thesis by (simp add: handle_ok[OF d t Inr f[unfolded None]] Inr f None prelude_def)
    next
      case (Some err)
      show ?thesis
        by (simp add: handle_fn_fails[OF d t Inr f[unfolded Some]] Inr f Some prelude_def)
    qed
  qed
  show "statWorkRatio (dumper (snd (handle eng pkt s))) = statWorkRatio (dumper s)"
  proof (cases "Execute eng tp ?m")
    case (Inl err)
    show ?thesis by (simp add: handle_execute_fails[OF d t Inl])
  next
    case (Inr buf)
    obtain r w where f: "fn (dumper s) pkt buf (world s) = (r, w)"
      by (cases "fn (dumper s) pkt buf (world s)")
    show ?thesis
    proof (cases r)
      case None
      show ?thesis by (simp add: handle_ok[OF d t Inr f[unfolded None]])
    next
      case (Some err)
      show ?thesis by (simp add: handle_fn_fails[OF d t Inr f[unfolded Some]])
    qed
  qed
qed

text \<open>A fresh node with the pattern \<open>pkt-{{.count}}\<close> and one packet that is written to a
  file: the effects in order, the counter, the rate and the file afterwards.\<close>

theorem step_order_witness:
  "map_option (\<lambda>s. (trace (snd (handle go_fields (packet 1 [65]) s)),
                    count (dumper (snd (handle go_fields (packet 1 [65]) s))),
                    statIncomingRate (dumper (snd (handle go_fields (packet 1 [65]) s))),
                    files (world (snd (handle go_fields (packet 1 [65]) s))) ''pkt-1''))
     (boot go_fields ''pkt-{{.count}}'' PktDumpFile (Some Map.empty) disk) =
   Some ([IncomingRateAdd 1,
          CountAdd 1,
          DataStore ''count'' (VUint32 1),
          DataStore ''pts'' (VInt64 0),
          DataStore ''stream_idx'' (VInt 1),
          WorkRatioAdd,
          TemplateExecute (published Map.empty 1 (packet 1 [65])) (Inr ''pkt-1''),
          WorkRatioDone,
          WorkRatioAdd,
          DumpCall (packet 1 [65]) ''pkt-1'' None,
          WorkRatioDone,
          PauseHandled],
         1, 1, Some [65])"
proof -
  let ?tp = "Fragment [TextNode ''pkt-'', FieldNode ''count'' []]"
  let ?pkt = "packet 1 [65]"
  obtain s where b: "boot go_fields ''pkt-{{.count}}'' PktDumpFile (Some Map.empty) disk = Some s"
    and d: "data (dumper s) = Some Map.empty" and t: "tmpl (dumper s) = Some ?tp"
    and c: "count (dumper s) = 0" and tr: "trace s = []" and f: "fn (dumper s) = PktDumpFile"
    and w: "world s = disk" and p: "pattern (dumper s) = ''pkt-{{.count}}''"
    and ir: "statIncomingRate (dumper s) = 0"
    using boot_Some[OF parse_count_pattern, of PktDumpFile "Some Map.empty" disk] by blast
  have ex: "Execute go_fields ?tp (published Map.empty 1 ?pkt) = Inr ''pkt-1''"
    by (simp add: go_template_def published_def decimal.simps digit_def)
  have du: "PktDumpFile ?pkt ''pkt-1'' disk =
     (None, disk\<lparr>files := [''pkt-1'' \<mapsto> Data ?pkt], writes := [(''pkt-1'', Data ?pkt)]\<rparr>)"
    by (rule PktDumpFile_disk)
  have hyp: "data (dumper s) = Some Map.empty \<and> tmpl (dumper s) = Some ?tp" using d t by simp
  note h = step_order[of go_fields ?pkt s Map.empty ?tp, THEN conjunct2, THEN conjunct2,
      THEN conjunct2, THEN conjunct2, THEN conjunct2, rule_format, OF hyp, THEN conjunct1]
  have e: "handle go_fields ?pkt s =
     (Returned,
      s\<lparr>dumper := (dumper s)\<lparr>statIncomingRate := 1, count := 1,
                              data := Some (published Map.empty 1 ?pkt)\<rparr>,
        world := disk\<lparr>files := [''pkt-1'' \<mapsto> Data ?pkt], writes := [(''pkt-1'', Data ?pkt)]\<rparr>,
        emitted := emitted s,
        trace := [IncomingRateAdd 1, CountAdd 1, DataStore ''count'' (VUint32 1),
          DataStore ''pts'' (VInt64 (Pts ?pkt)), DataStore ''stream_idx'' (VInt (StreamIndex ?pkt)),
          WorkRatioAdd, TemplateExecute (published Map.empty 1 ?pkt) (Inr ''pkt-1''),
          WorkRatioDone, WorkRatioAdd, DumpCall ?pkt ''pkt-1'' None, WorkRatioDone,
          PauseHandled]\<rparr>)"
    using h by (simp add: c tr f w ir ex du)
  have "(trace (snd (handle go_fields ?pkt s)),
         count (dumper (snd (handle go_fields ?pkt s))),
         statIncomingRate (dumper (snd (handle go_fields ?pkt s))),
         files (world (snd (handle go_fields ?pkt s))) ''pkt-1'') =
      ([IncomingRateAdd 1, CountAdd 1, DataStore ''count'' (VUint32 1),
        DataStore ''pts'' (VInt64 0), DataStore ''stream_idx'' (VInt 1), WorkRatioAdd,
        TemplateExecute (published Map.empty 1 ?pkt) (Inr ''pkt-1''), WorkRatioDone,
        WorkRatioAdd, DumpCall ?pkt ''pkt-1'' None, WorkRatioDone, PauseHandled],
       1, 1, Some [65])"
    unfolding e by (simp add: packet_def)
  then show ?thesis by (simp only: b option.map)
qed

subsection \<open>C10: what a failed construction leaves behind\<close>

text \<open>
  C10. When parsing the pattern fails, \<open>NewPktDumper\<close> still returns a node together with
  the error. The package counter has been incremented, the node carries that number in its
  label and name, and the next node gets the following number; the two stats of the node
  and those of its queue have been added to its stater.
\<close>

theorem constructor_failure_effects:
  "Parse eng pat = Inl perr \<longrightarrow>
     (\<exists>d. NewPktDumper eng pat f dat g = (g + 1, Some d, Some (parse_failed pat perr)) \<and>
          BaseNode d = \<lparr>Description = ''Dump packets'',
                        Label = ''Pkt dumper #'' @ decimal (unat (g + 1)),
                        Name = ''pkt_dumper_'' @ decimal (unat (g + 1))\<rparr> \<and>
          Stater d =
            [AddStat \<lparr>StatDescription = ''Number of packets coming in the pkt dumper per second'',
                      StatLabel = ''Incoming rate'', StatUnit = ''pps''\<rparr> StatIncomingRate,
             AddStat \<lparr>StatDescription = ''Percentage of time spent doing some actual work'',
                      StatLabel = ''Work ratio'', StatUnit = ''%''\<rparr> StatWorkRatio,
             QueueAddStats]) \<and>
     fst (NewPktDumper eng pat2 f2 dat2 (fst (NewPktDumper eng pat f dat g))) = g + 2"
proof (intro impI conjI)
  assume p: "Parse eng pat = Inl perr"
  show "\<exists>d. NewPktDumper eng pat f dat g = (g + 1, Some d, Some (parse_failed pat perr)) \<and>
          BaseNode d = \<lparr>Description = ''Dump packets'',
                        Label = ''Pkt dumper #'' @ decimal (unat (g + 1)),
                        Name = ''pkt_dumper_'' @ decimal (unat (g + 1))\<rparr> \<and>
          Stater d =
            [AddStat \<lparr>StatDescription = ''Number of packets coming in the pkt dumper per second'',
                      StatLabel = ''Incoming rate'', StatUnit = ''pps''\<rparr> StatIncomingRate,
             AddStat \<lparr>StatDescription = ''Percentage of time spent doing some actual work'',
                      StatLabel = ''Work ratio'', StatUnit = ''%''\<rparr> StatWorkRatio,
             QueueAddStats]"
    using p by (simp add: NewPktDumper_def addStats_def Let_def)
  show "fst (NewPktDumper eng pat2 f2 dat2 (fst (NewPktDumper eng pat f dat g))) = g + 2"
    by (simp add: NewPktDumper_def Let_def split: sum.splits)
qed

text \<open>The first construction of a process fails on \<open>{{\<close>; the second node is number 2.\<close>

theorem constructor_failure_effects_witness:
  "map_option (\<lambda>d. (Name (BaseNode d), length (Stater d)))
     (fst (snd (NewPktDumper go_fields ''{{'' PktDumpFile (Some Map.empty) 0))) =
     Some (''pkt_dumper_1'', 3) \<and>
   snd (snd (NewPktDumper go_fields ''{{'' PktDumpFile (Some Map.empty) 0)) =
     Some (Wrapf (Err ''unclosed action'')
             [Lit ''astilibav: parsing pattern '', Lit ''{{'', Lit '' as template failed'']) \<and>
   fst (NewPktDumper go_fields ''pkt-{{.count}}'' PktDumpFile (Some Map.empty)
         (fst (NewPktDumper go_fields ''{{'' PktDumpFile (Some Map.empty) 0))) = 2"
proof -
  note c = constructor_failure_effects[of go_fields "''{{''" "Err ''unclosed action''"
      PktDumpFile "Some Map.empty" 0 "''pkt-{{.count}}''" PktDumpFile "Some Map.empty",
      rule_format, OF parse_unclosed]
  from c obtain d where n: "NewPktDumper go_fields ''{{'' PktDumpFile (Some Map.empty) 0 =
       (0 + 1, Some d, Some (parse_failed ''{{'' (Err ''unclosed action'')))"
    and b: "BaseNode d = \<lparr>Description = ''Dump packets'',
                        Label = ''Pkt dumper #'' @ decimal (unat ((0::64 word) + 1)),
                        Name = ''pkt_dumper_'' @ decimal (unat ((0::64 word) + 1))\<rparr>"
    and st: "length (Stater d) = 3"
    by auto
  have 1: "map_option (\<lambda>d. (Name (BaseNode d), length (Stater d)))
     (fst (snd (NewPktDumper go_fields ''{{'' PktDumpFile (Some Map.empty) 0))) =
     Some (''pkt_dumper_1'', 3)"
    by (simp add: n b st decimal.simps digit_def)
  have 2: "snd (snd (NewPktDumper go_fields ''{{'' PktDumpFile (Some Map.empty) 0)) =
     Some (Wrapf (Err ''unclosed action'')
             [Lit ''astilibav: parsing pattern '', Lit ''{{'', Lit '' as template failed''])"
    by (simp add: n parse_failed_def)
  have 3: "fst (NewPktDumper go_fields ''pkt-{{.count}}'' PktDumpFile (Some Map.empty)
         (fst (NewPktDumper go_fields ''{{'' PktDumpFile (Some Map.empty) 0))) = 2"
    using c by simp
  from 1 2 3 show ?thesis by (intro conjI)
qed

end
